theory Spec2Isabelle
  imports Main
begin

section \<open>Python values, exceptions and effects\<close>

text \<open>
  The widgets of \<^verbatim>\<open>subiquitycore/ui/interactive.py\<close> receive dynamically typed
  values: a raw option of a Selector is a \<^verbatim>\<open>str\<close>, a \<^verbatim>\<open>tuple\<close> of any length, or
  anything else. The values that matter to the code are collected in one datatype.
  A Python string is a \<^typ>\<open>string\<close>, one \<^typ>\<open>char\<close> for each character.
\<close>

datatype pyval =
    PNone
  | PBool bool
  | PInt int
  | PStr string
  | PTuple "pyval list"
  | PList "pyval list"

text \<open>
  The exceptions the code can raise. \<^verbatim>\<open>SelectorError("invalid option %r", opt)\<close> carries
  its two arguments: the message template and the offending option.
\<close>

datatype error =
    SelectorError string pyval
  | IndexError
  | TypeError
  | ValueError

text \<open>
  What a method does to the toolkit besides returning: a signal emitted by the Selector
  (\<^verbatim>\<open>self._emit(name, arg)\<close>), the text of its button replaced
  (\<^verbatim>\<open>self._button.set_text(t)\<close>) and its \<^verbatim>\<open>_index\<close> attribute assigned. A method returns
  its result, or the exception it raised, together with the effects it performed up to
  that point, in the order it performed them: a raised exception does not undo them.
\<close>

datatype effect =
    Emit string pyval
  | SetText string
  | StoreIndex int

type_synonym 'a m = "(error + 'a) \<times> effect list"

definition return :: "'a \<Rightarrow> 'a m" where
  "return x = (Inr x, [])"

definition lift :: "error + 'a \<Rightarrow> 'a m" where
  "lift r = (r, [])"

definition bnd :: "'a m \<Rightarrow> ('a \<Rightarrow> 'b m) \<Rightarrow> 'b m" where
  "bnd x f =
     (case x of
        (Inl e, t) \<Rightarrow> (Inl e, t)
      | (Inr a, t) \<Rightarrow> (case f a of (r, t') \<Rightarrow> (r, t @ t')))"

subsection \<open>Built-in operations\<close>

text \<open>\<^verbatim>\<open>xs[i]\<close> on a list: a negative index counts from the end, anything else out of
  range raises \<^verbatim>\<open>IndexError\<close>.\<close>

definition py_getitem :: "'a list \<Rightarrow> int \<Rightarrow> error + 'a" where
  "py_getitem xs i =
     (let n = int (length xs);
          j = (if i < 0 then i + n else i)
      in if 0 \<le> j \<and> j < n then Inr (xs ! nat j) else Inl IndexError)"

text \<open>\<^verbatim>\<open>s + x\<close> for a string \<open>s\<close>: only a string can be appended.\<close>

fun py_str_add :: "string \<Rightarrow> pyval \<Rightarrow> error + string" where
  "py_str_add s (PStr x) = Inr (s @ x)"
| "py_str_add s _ = Inl TypeError"

text \<open>\<^verbatim>\<open>len(x)\<close>.\<close>

fun py_len :: "pyval \<Rightarrow> error + nat" where
  "py_len (PStr x) = Inr (length x)"
| "py_len (PTuple xs) = Inr (length xs)"
| "py_len (PList xs) = Inr (length xs)"
| "py_len _ = Inl TypeError"

text \<open>The truth value of \<^verbatim>\<open>x\<close> in \<^verbatim>\<open>if x:\<close>.\<close>

fun py_truthy :: "pyval \<Rightarrow> bool" where
  "py_truthy PNone = False"
| "py_truthy (PBool b) = b"
| "py_truthy (PInt i) = (i \<noteq> 0)"
| "py_truthy (PStr x) = (x \<noteq> [])"
| "py_truthy (PTuple xs) = (xs \<noteq> [])"
| "py_truthy (PList xs) = (xs \<noteq> [])"

text \<open>\<^verbatim>\<open>max(ns)\<close> of a list of numbers: \<^verbatim>\<open>ValueError\<close> on the empty list.\<close>

fun py_max :: "nat list \<Rightarrow> error + nat" where
  "py_max [] = Inl ValueError"
| "py_max (n # ns) = Inr (fold max ns n)"

section \<open>The Selector\<close>

subsection \<open>State\<close>

text \<open>A normalised option \<^verbatim>\<open>(label, selectable, value)\<close>.\<close>

type_synonym option3 = "pyval \<times> pyval \<times> pyval"

definition label :: "option3 \<Rightarrow> pyval" where
  "label opt = fst opt"

definition selectable :: "option3 \<Rightarrow> pyval" where
  "selectable opt = fst (snd opt)"

definition opt_value :: "option3 \<Rightarrow> pyval" where
  "opt_value opt = snd (snd opt)"

text \<open>
  A row of the pop-up: a \<^verbatim>\<open>_PopUpButton\<close> with its text and the index its
  \<^verbatim>\<open>click\<close> signal was connected with, or a plain \<^verbatim>\<open>Text\<close>.
\<close>

datatype row =
    PopUpButton string int
  | TextRow string

record dialog =
  group :: "row list"
  focus :: row

text \<open>
  The attributes of a \<^verbatim>\<open>Selector\<close>: \<^verbatim>\<open>_options\<close>, the text of \<^verbatim>\<open>_button\<close>,
  \<^verbatim>\<open>_index\<close>, and \<^verbatim>\<open>_pop_up_widget\<close> of the \<^verbatim>\<open>PopUpLauncher\<close> it inherits from.
  The dialog's \<^verbatim>\<open>parent\<close> is the Selector that holds it.
\<close>

record selector =
  options :: "option3 list"
  button_text :: string
  index :: int
  pop_up_widget :: "dialog option"

definition prefix :: string where
  "prefix = ''(+) ''"

subsection \<open>Construction\<close>

text \<open>
  The body of the loop of \<^verbatim>\<open>Selector.__init__\<close>, in the order of its tests:
  not a tuple and not a string raises; a string \<open>s\<close> becomes \<open>(s, True, s)\<close>; tuples of
  length 1 and 2 are completed; a tuple whose length is not 3 raises; a 3-tuple is kept.
\<close>

definition normalize_opt :: "pyval \<Rightarrow> error + option3" where
  "normalize_opt opt =
     (case opt of
        PTuple xs \<Rightarrow>
          (if length xs = 1 then Inr (xs ! 0, PBool True, xs ! 0)
           else if length xs = 2 then Inr (xs ! 0, xs ! 1, xs ! 0)
           else if length xs \<noteq> 3 then Inl (SelectorError ''invalid option %r'' opt)
           else Inr (xs ! 0, xs ! 1, xs ! 2))
      | PStr s \<Rightarrow> Inr (opt, PBool True, opt)
      | _ \<Rightarrow> Inl (SelectorError ''invalid option %r'' opt))"

text \<open>The loop: \<open>acc\<close> is \<^verbatim>\<open>self._options\<close>, appended to; the first raise ends it.\<close>

fun init_loop :: "pyval list \<Rightarrow> option3 list \<Rightarrow> error + option3 list" where
  "init_loop [] acc = Inr acc"
| "init_loop (opt # opts) acc =
     (case normalize_opt opt of
        Inl e \<Rightarrow> Inl e
      | Inr opt' \<Rightarrow> init_loop opts (acc @ [opt']))"

definition init_options :: "pyval list \<Rightarrow> error + option3 list" where
  "init_options opts = init_loop opts []"

text \<open>
  Modelled from the spec: \<^verbatim>\<open>set_text\<close> of the toolkit's text control, which replaces the
  text the button shows. After it, the assignment of \<^verbatim>\<open>_index\<close>.
\<close>

definition set_text :: "selector \<Rightarrow> string \<Rightarrow> selector m" where
  "set_text s t = (Inr (s\<lparr>button_text := t\<rparr>), [SetText t])"

definition store_index :: "selector \<Rightarrow> int \<Rightarrow> selector m" where
  "store_index s val = (Inr (s\<lparr>index := val\<rparr>), [StoreIndex val])"

definition set_index :: "selector \<Rightarrow> int \<Rightarrow> selector m" where
  "set_index s val =
     bnd (lift (py_getitem (options s) val)) (\<lambda>opt.
     bnd (lift (py_str_add prefix (label opt))) (\<lambda>t.
     bnd (set_text s t) (\<lambda>s1.
     store_index s1 val)))"

text \<open>
  \<^verbatim>\<open>Selector.__init__(opts, index)\<close>. The button is created showing the prefix alone.
  \<^verbatim>\<open>_index\<close> has no value before \<^verbatim>\<open>_set_index\<close> assigns it; the record needs one, and
  \<open>set_index\<close> either replaces it or raises, so the 0 written here is never read.
\<close>

definition Selector_init :: "pyval list \<Rightarrow> int \<Rightarrow> selector m" where
  "Selector_init opts idx =
     bnd (lift (init_options opts)) (\<lambda>os.
     set_index \<lparr>options = os, button_text = prefix, index = 0, pop_up_widget = None\<rparr> idx)"

definition YesNo_init :: "selector m" where
  "YesNo_init = Selector_init [PStr ''Yes'', PStr ''No''] 0"

subsection \<open>Index and value\<close>

text \<open>
  Modelled from the spec: the signal mechanism of the toolkit, whose code is not part of
  this module. \<^verbatim>\<open>_emit(name, arg)\<close> sends the named signal with its argument to the
  listeners; the Selector itself is not changed.
\<close>

definition emit :: "string \<Rightarrow> pyval \<Rightarrow> unit m" where
  "emit name arg = (Inr (), [Emit name arg])"

text \<open>The getter of the \<^verbatim>\<open>index\<close> property.\<close>

definition index_getter :: "selector \<Rightarrow> int" where
  "index_getter s = index s"

text \<open>
  The setter of the \<^verbatim>\<open>index\<close> property: the argument of \<^verbatim>\<open>_emit\<close> is evaluated
  first, then the signal is emitted, then \<^verbatim>\<open>_set_index\<close> runs.
\<close>

definition index_setter :: "selector \<Rightarrow> int \<Rightarrow> selector m" where
  "index_setter s val =
     bnd (lift (py_getitem (options s) val)) (\<lambda>opt.
     bnd (emit ''select'' (opt_value opt)) (\<lambda>_.
     set_index s val))"

text \<open>The \<^verbatim>\<open>value\<close> property.\<close>

definition value_getter :: "selector \<Rightarrow> error + pyval" where
  "value_getter s =
     (case py_getitem (options s) (index s) of
        Inl e \<Rightarrow> Inl e
      | Inr opt \<Rightarrow> Inr (opt_value opt))"

subsection \<open>Geometry of the pop-up\<close>

record pop_up_parameters =
  left :: int
  top :: int
  overlay_width :: int
  overlay_height :: int

text \<open>The list comprehension \<^verbatim>\<open>[len(o[0]) for o in self._options]\<close>: the first
  \<^verbatim>\<open>len\<close> that raises ends it.\<close>

fun label_lengths :: "option3 list \<Rightarrow> error + nat list" where
  "label_lengths [] = Inr []"
| "label_lengths (opt # os) =
     (case py_len (label opt) of
        Inl e \<Rightarrow> Inl e
      | Inr n \<Rightarrow> (case label_lengths os of Inl e \<Rightarrow> Inl e | Inr ns \<Rightarrow> Inr (n # ns)))"

definition get_pop_up_parameters :: "selector \<Rightarrow> error + pop_up_parameters" where
  "get_pop_up_parameters s =
     (case label_lengths (options s) of
        Inl e \<Rightarrow> Inl e
      | Inr ns \<Rightarrow>
          (case py_max ns of
             Inl e \<Rightarrow> Inl e
           | Inr w \<Rightarrow>
               (let width = int w + int (length prefix) + 3
                in Inr \<lparr>left = - 1, top = - index_getter s - 1, overlay_width = width,
                        overlay_height = int (length (options s)) + 2\<rparr>)))"

subsection \<open>The pop-up dialog\<close>

text \<open>\<^verbatim>\<open>_PopUpButton.states\<close>.\<close>

definition states :: "bool \<Rightarrow> string" where
  "states b = (if b then ''(+) '' else ''( ) '')"

text \<open>
  The loop of \<^verbatim>\<open>_PopUpSelectDialog.__init__\<close> over \<^verbatim>\<open>enumerate(parent._options)\<close>,
  \<open>i\<close> the position of the first option of the list: a selectable option gives a button
  whose \<^verbatim>\<open>click\<close> is connected with \<open>i\<close>, another one a text indented by four spaces.
\<close>

fun make_group :: "int \<Rightarrow> int \<Rightarrow> option3 list \<Rightarrow> error + row list" where
  "make_group cur_index i [] = Inr []"
| "make_group cur_index i (opt # os) =
     (case (if py_truthy (selectable opt)
            then (case py_str_add (states (i = cur_index)) (label opt) of
                    Inl e \<Rightarrow> Inl e
                  | Inr t \<Rightarrow> Inr (PopUpButton t i))
            else (case py_str_add ''    '' (label opt) of
                    Inl e \<Rightarrow> Inl e
                  | Inr t \<Rightarrow> Inr (TextRow t))) of
        Inl e \<Rightarrow> Inl e
      | Inr r \<Rightarrow>
          (case make_group cur_index (i + 1) os of
             Inl e \<Rightarrow> Inl e
           | Inr rs \<Rightarrow> Inr (r # rs)))"

text \<open>\<^verbatim>\<open>_PopUpSelectDialog(parent, cur_index)\<close>: the rows, then the focus on
  \<^verbatim>\<open>group[cur_index]\<close>.\<close>

definition PopUpSelectDialog_init :: "selector \<Rightarrow> int \<Rightarrow> error + dialog" where
  "PopUpSelectDialog_init parent cur_index =
     (case make_group cur_index 0 (options parent) of
        Inl e \<Rightarrow> Inl e
      | Inr g \<Rightarrow>
          (case py_getitem g cur_index of
             Inl e \<Rightarrow> Inl e
           | Inr r \<Rightarrow> Inr \<lparr>group = g, focus = r\<rparr>))"

definition create_pop_up :: "selector \<Rightarrow> error + dialog" where
  "create_pop_up s = PopUpSelectDialog_init s (index_getter s)"

text \<open>
  Modelled from the spec: the overlay launcher of the toolkit, which the Selector inherits
  from and whose code is not part of this module. Opening asks the widget for the pop-up
  content (\<open>create_pop_up\<close>) and keeps it; closing discards it.
\<close>

definition open_pop_up :: "selector \<Rightarrow> selector m" where
  "open_pop_up s =
     bnd (lift (create_pop_up s)) (\<lambda>d. return (s\<lparr>pop_up_widget := Some d\<rparr>))"

definition close_pop_up :: "selector \<Rightarrow> selector m" where
  "close_pop_up s = return (s\<lparr>pop_up_widget := None\<rparr>)"

text \<open>\<^verbatim>\<open>_PopUpSelectDialog.click(btn, index)\<close>, on the dialog's parent.\<close>

definition click :: "selector \<Rightarrow> int \<Rightarrow> selector m" where
  "click parent idx =
     bnd (index_setter parent idx) (\<lambda>s1.
     close_pop_up s1)"

text \<open>
  The \<^verbatim>\<open>click\<close> signal of a row: a button calls \<open>click\<close> with the index it was connected
  with; a \<^verbatim>\<open>Text\<close> has no such signal.
\<close>

fun row_click :: "selector \<Rightarrow> row \<Rightarrow> selector m" where
  "row_click parent (PopUpButton t i) = click parent i"
| "row_click parent (TextRow t) = return parent"

text \<open>
  \<^verbatim>\<open>_PopUpSelectDialog.keypress(size, key)\<close>: \<^verbatim>\<open>esc\<close> closes and returns \<^verbatim>\<open>None\<close>;
  any other key goes to the wrapped widget, \<open>super_keypress\<close>, a parameter.
\<close>

definition PopUpSelectDialog_keypress ::
  "(selector \<Rightarrow> 'z \<Rightarrow> string \<Rightarrow> (selector \<times> pyval) m) \<Rightarrow>
     selector \<Rightarrow> 'z \<Rightarrow> string \<Rightarrow> (selector \<times> pyval) m" where
  "PopUpSelectDialog_keypress super_keypress parent sz key =
     (if key = ''esc''
      then bnd (close_pop_up parent) (\<lambda>s1. return (s1, PNone))
      else super_keypress parent sz key)"

text \<open>
  \<^verbatim>\<open>Selector.keypress(size, key)\<close>: \<open>command_map\<close> is the toolkit's table from keys to
  commands, a parameter; a key that is not bound to \<^verbatim>\<open>ACTIVATE\<close> is returned.
\<close>

datatype command = ACTIVATE | OtherCommand string

definition Selector_keypress ::
  "(string \<Rightarrow> command option) \<Rightarrow> selector \<Rightarrow> 'z \<Rightarrow> string \<Rightarrow> (selector \<times> pyval) m" where
  "Selector_keypress command_map s sz key =
     (if command_map key \<noteq> Some ACTIVATE then return (s, PStr key)
      else bnd (open_pop_up s) (\<lambda>s1. return (s1, PNone)))"

section \<open>The text editors\<close>

subsection \<open>Matching a key against a character class\<close>

text \<open>
  Every pattern of the module is one bracket expression. Its members are single
  characters and ranges of characters; \<^verbatim>\<open>re.match\<close> tries the pattern at the start of the
  key only, so it consumes the first character of the key or fails.
\<close>

datatype class_item =
    Lit char
  | Range char char

fun in_item :: "char \<Rightarrow> class_item \<Rightarrow> bool" where
  "in_item c (Lit d) = (c = d)"
| "in_item c (Range lo hi) =
     ((of_char lo :: nat) \<le> of_char c \<and> (of_char c :: nat) \<le> of_char hi)"

definition in_class :: "class_item list \<Rightarrow> char \<Rightarrow> bool" where
  "in_class cls c = list_ex (in_item c) cls"

text \<open>\<^verbatim>\<open>re.match(pattern, key)\<close>: the matched text, or \<open>None\<close>.\<close>

fun re_match :: "class_item list \<Rightarrow> string \<Rightarrow> string option" where
  "re_match cls [] = None"
| "re_match cls (c # cs) = (if in_class cls c then Some [c] else None)"

text \<open>\<^verbatim>\<open>r'[a-zA-Z0-9_\- ]'\<close>\<close>

definition realname :: "class_item list" where
  "realname =
     [Range CHR ''a'' CHR ''z'', Range CHR ''A'' CHR ''Z'', Range CHR ''0'' CHR ''9'',
      Lit CHR ''_'', Lit CHR ''-'', Lit CHR '' '']"

text \<open>\<^verbatim>\<open>r'[-a-zA-Z0-9_.@+=]'\<close>\<close>

definition email :: "class_item list" where
  "email =
     [Lit CHR ''-'', Range CHR ''a'' CHR ''z'', Range CHR ''A'' CHR ''Z'',
      Range CHR ''0'' CHR ''9'', Lit CHR ''_'', Lit CHR ''.'', Lit CHR ''@'',
      Lit CHR ''+'', Lit CHR ''='']"

text \<open>\<^verbatim>\<open>r'[a-z_]'\<close>\<close>

definition username_empty :: "class_item list" where
  "username_empty = [Range CHR ''a'' CHR ''z'', Lit CHR ''_'']"

text \<open>\<^verbatim>\<open>r'[a-z0-9_-]'\<close>\<close>

definition username_nonempty :: "class_item list" where
  "username_nonempty =
     [Range CHR ''a'' CHR ''z'', Range CHR ''0'' CHR ''9'', Lit CHR ''_'', Lit CHR ''-'']"

subsection \<open>StringEditor and its subclasses\<close>

text \<open>
  Modelled from the spec: the text-editing primitive of the toolkit (\<^verbatim>\<open>Edit\<close>) that a
  \<^verbatim>\<open>StringEditor\<close> wraps, whose code is not part of this module: its text, read and
  replaced as a whole, and the position of its cursor, which stays inside the text.
\<close>

record edit =
  edit_text :: string
  edit_pos :: nat

definition get_edit_text :: "edit \<Rightarrow> string" where
  "get_edit_text e = edit_text e"

definition set_edit_text :: "edit \<Rightarrow> string \<Rightarrow> edit" where
  "set_edit_text e t =
     e\<lparr>edit_text := t, edit_pos := (if edit_pos e > length t then length t else edit_pos e)\<rparr>"

record string_editor =
  edit_w :: edit
  error_msg :: "string option"

definition StringEditor_value :: "string_editor \<Rightarrow> string" where
  "StringEditor_value s = get_edit_text (edit_w s)"

definition set_error :: "string_editor \<Rightarrow> string \<Rightarrow> string_editor" where
  "set_error s msg = s\<lparr>error_msg := Some msg, edit_w := set_edit_text (edit_w s) msg\<rparr>"

text \<open>
  \<^verbatim>\<open>StringEditor.keypress(size, key)\<close>: a displayed error is cleared first, then the
  key goes to the \<^verbatim>\<open>Edit\<close>. Its \<^verbatim>\<open>keypress\<close> is the toolkit's and is a parameter: from
  the \<^verbatim>\<open>Edit\<close>, the size and the key it gives the \<^verbatim>\<open>Edit\<close> afterwards and what it
  returns.
\<close>

definition StringEditor_keypress ::
  "(edit \<Rightarrow> 'z \<Rightarrow> string \<Rightarrow> edit \<times> pyval) \<Rightarrow>
     string_editor \<Rightarrow> 'z \<Rightarrow> string \<Rightarrow> string_editor \<times> pyval" where
  "StringEditor_keypress edit_keypress s sz key =
     (let s1 = (case error_msg s of
                  Some msg \<Rightarrow>
                    (if msg \<noteq> [] then s\<lparr>edit_w := set_edit_text (edit_w s) [], error_msg := None\<rparr>
                     else s)
                | None \<Rightarrow> s)
      in case edit_keypress (edit_w s1) sz key of
           (e, r) \<Rightarrow> (s1\<lparr>edit_w := e\<rparr>, r))"

definition RealnameEditor_keypress ::
  "(edit \<Rightarrow> 'z \<Rightarrow> string \<Rightarrow> edit \<times> pyval) \<Rightarrow>
     string_editor \<Rightarrow> 'z \<Rightarrow> string \<Rightarrow> string_editor \<times> pyval" where
  "RealnameEditor_keypress edit_keypress s sz key =
     (if re_match realname key = None then (s, PBool False)
      else StringEditor_keypress edit_keypress s sz key)"

definition EmailEditor_keypress ::
  "(edit \<Rightarrow> 'z \<Rightarrow> string \<Rightarrow> edit \<times> pyval) \<Rightarrow>
     string_editor \<Rightarrow> 'z \<Rightarrow> string \<Rightarrow> string_editor \<times> pyval" where
  "EmailEditor_keypress edit_keypress s sz key =
     (if re_match email key = None then (s, PBool False)
      else StringEditor_keypress edit_keypress s sz key)"

definition UsernameEditor_keypress ::
  "(edit \<Rightarrow> 'z \<Rightarrow> string \<Rightarrow> edit \<times> pyval) \<Rightarrow>
     string_editor \<Rightarrow> 'z \<Rightarrow> string \<Rightarrow> string_editor \<times> pyval" where
  "UsernameEditor_keypress edit_keypress s sz key =
     (let userlen = length (StringEditor_value s);
          username = (if userlen = 0 then username_empty else username_nonempty)
      in if re_match username key = None then (s, PBool False)
         else StringEditor_keypress edit_keypress s sz key)"

section \<open>The specification's notions\<close>

text \<open>
  The shapes the specification calls valid for a raw option: a bare text, or a grouping
  of one, two or three elements.
\<close>

fun valid_shape :: "pyval \<Rightarrow> bool" where
  "valid_shape (PStr s) = True"
| "valid_shape (PTuple xs) = (length xs = 1 \<or> length xs = 2 \<or> length xs = 3)"
| "valid_shape _ = False"

text \<open>
  The triple the specification documents for each valid shape: \<open>(label,)\<close> gives
  \<open>(label, True, label)\<close>, \<open>(label, selectable)\<close> gives \<open>(label, selectable, label)\<close>, a
  3-element grouping is kept, and a bare text \<open>s\<close> gives \<open>(s, True, s)\<close>.
\<close>

fun spec_triple :: "pyval \<Rightarrow> option3" where
  "spec_triple (PTuple [l]) = (l, PBool True, l)"
| "spec_triple (PTuple [l, sel]) = (l, sel, l)"
| "spec_triple (PTuple [l, sel, v]) = (l, sel, v)"
| "spec_triple s = (s, PBool True, s)"

text \<open>
  The characters the specification names for the editors' filters: \<open>a\<close> to \<open>z\<close>,
  \<open>A\<close> to \<open>Z\<close> and \<open>0\<close> to \<open>9\<close>, written out.
\<close>

definition lower_chars :: string where
  "lower_chars = ''abcdefghijklmnopqrstuvwxyz''"

definition upper_chars :: string where
  "upper_chars = ''ABCDEFGHIJKLMNOPQRSTUVWXYZ''"

definition digit_chars :: string where
  "digit_chars = ''0123456789''"

section \<open>Facts about the effect monad and the built-in operations\<close>

lemma bnd_Inl: "bnd (Inl e, t) f = (Inl e, t)"
  by (simp add: bnd_def)

lemma bnd_Inr: "bnd (Inr a, t) f = (fst (f a), t @ snd (f a))"
  by (simp add: bnd_def split: prod.splits)

lemmas m_simps = bnd_Inl bnd_Inr lift_def return_def emit_def set_text_def store_index_def

lemma bnd_lift_Inl: "bnd (lift (Inl e)) f = (Inl e, [])"
  by (simp add: bnd_def lift_def)

lemma bnd_lift_Inr: "bnd (lift (Inr a)) f = f a"
  by (cases "f a") (simp add: bnd_def lift_def)

section \<open>Construction of a Selector\<close>

lemma normalize_opt_valid: "valid_shape opt \<Longrightarrow> normalize_opt opt = Inr (spec_triple opt)"
proof (cases opt)
  case (PTuple xs)
  assume v: "valid_shape opt"
  then consider a where "xs = [a]" | a b where "xs = [a, b]" | a b c where "xs = [a, b, c]"
    using PTuple by (auto simp: length_Suc_conv numeral_2_eq_2 numeral_3_eq_3)
  then show ?thesis using PTuple by cases (simp_all add: normalize_opt_def)
qed (simp_all add: normalize_opt_def)

lemma normalize_opt_invalid:
  "\<not> valid_shape opt \<Longrightarrow> normalize_opt opt = Inl (SelectorError ''invalid option %r'' opt)"
  by (cases opt) (simp_all add: normalize_opt_def)

lemma init_loop_find:
  "init_loop opts acc =
     (case find (\<lambda>opt. \<not> valid_shape opt) opts of
        Some x \<Rightarrow> Inl (SelectorError ''invalid option %r'' x)
      | None \<Rightarrow> Inr (acc @ map spec_triple opts))"
proof (induction opts arbitrary: acc)
  case Nil
  show ?case by simp
next
  case (Cons opt opts)
  show ?case
  proof (cases "valid_shape opt")
    case True
    then show ?thesis using Cons [of "acc @ [spec_triple opt]"]
      by (simp add: normalize_opt_valid split: option.splits)
  next
    case False
    then show ?thesis by (simp add: normalize_opt_invalid)
  qed
qed

lemma init_options_valid:
  "list_all valid_shape opts \<Longrightarrow> init_options opts = Inr (map spec_triple opts)"
proof -
  assume "list_all valid_shape opts"
  then have "find (\<lambda>opt. \<not> valid_shape opt) opts = None"
    by (simp add: find_None_iff list_all_iff)
  then show ?thesis by (simp add: init_options_def init_loop_find)
qed

lemma init_options_invalid:
  "find (\<lambda>opt. \<not> valid_shape opt) opts = Some x \<Longrightarrow>
     init_options opts = Inl (SelectorError ''invalid option %r'' x)"
  by (simp add: init_options_def init_loop_find)

lemma py_getitem_Inl: "py_getitem xs i = Inl e \<Longrightarrow> e = IndexError"
  by (simp add: py_getitem_def Let_def split: if_splits)

lemma set_index_no_selector_error: "fst (set_index s i) \<noteq> Inl (SelectorError m x)"
proof (cases "py_getitem (options s) i")
  case (Inl e)
  then show ?thesis using py_getitem_Inl [OF Inl] by (simp add: set_index_def m_simps)
next
  case (Inr opt)
  then show ?thesis by (cases "label opt") (simp_all add: set_index_def m_simps)
qed

lemma set_index_no_emit: "Emit name v \<notin> set (snd (set_index s i))"
  by (cases "py_getitem (options s) i"; cases "label (projr (py_getitem (options s) i))")
     (simp_all add: set_index_def m_simps)

lemma set_index_ok:
  assumes "py_getitem (options s) i = Inr opt" and "label opt = PStr l"
  shows "set_index s i =
           (Inr (s\<lparr>button_text := prefix @ l, index := i\<rparr>), [SetText (prefix @ l), StoreIndex i])"
  using assms by (simp add: set_index_def m_simps)

lemma set_index_IndexError:
  "py_getitem (options s) i = Inl e \<Longrightarrow> set_index s i = (Inl e, [])"
  by (simp add: set_index_def bnd_lift_Inl)

lemma py_getitem_in_range:
  "0 \<le> i \<Longrightarrow> i < int (length xs) \<Longrightarrow> py_getitem xs i = Inr (xs ! nat i)"
  by (simp add: py_getitem_def)

lemma py_getitem_out_of_range:
  "i < - int (length xs) \<or> int (length xs) \<le> i \<Longrightarrow> py_getitem xs i = Inl IndexError"
  by (auto simp add: py_getitem_def Let_def)

text \<open>
  Claim C1. When every raw option has a valid shape, the loop of the constructor succeeds
  and keeps one triple for each raw option, in order: a bare text \<open>s\<close> gives
  \<open>(s, True, s)\<close>, \<open>(label,)\<close> gives \<open>(label, True, label)\<close>, \<open>(label, selectable)\<close> gives
  \<open>(label, selectable, label)\<close>, and a 3-element grouping is stored unchanged. Whenever
  the construction as a whole succeeds, these triples are the options of the Selector.
\<close>

theorem normalization_of_valid_options:
  assumes "list_all valid_shape opts"
  shows "\<exists>os. init_options opts = Inr os \<and> length os = length opts \<and>
           (\<forall>k<length opts.
              (\<forall>t. opts ! k = PStr t \<longrightarrow> os ! k = (PStr t, PBool True, PStr t)) \<and>
              (\<forall>l. opts ! k = PTuple [l] \<longrightarrow> os ! k = (l, PBool True, l)) \<and>
              (\<forall>l b. opts ! k = PTuple [l, b] \<longrightarrow> os ! k = (l, b, l)) \<and>
              (\<forall>l b v. opts ! k = PTuple [l, b, v] \<longrightarrow> os ! k = (l, b, v))) \<and>
           (\<forall>s t. Selector_init opts idx = (Inr s, t) \<longrightarrow> options s = os)"
proof -
  let ?os = "map spec_triple opts"
  have a: "init_options opts = Inr ?os" using assms by (rule init_options_valid)
  have b: "\<forall>s t. Selector_init opts idx = (Inr s, t) \<longrightarrow> options s = ?os"
  proof (intro allI impI)
    fix s t assume h: "Selector_init opts idx = (Inr s, t)"
    let ?s0 = "\<lparr>options = ?os, button_text = prefix, index = 0, pop_up_widget = None\<rparr>"
    from h a have si: "set_index ?s0 idx = (Inr s, t)"
      by (simp add: Selector_init_def bnd_lift_Inr)
    show "options s = ?os"
    proof (cases "py_getitem (options ?s0) idx")
      case (Inl e)
      then show ?thesis using si set_index_IndexError [of ?s0 idx e] by simp
    next
      case (Inr opt)
      show ?thesis
      proof (cases "label opt")
        case (PStr l)
        then show ?thesis using si set_index_ok [OF Inr PStr] by auto
      qed (use si Inr in \<open>simp_all add: set_index_def bnd_lift_Inr bnd_lift_Inl\<close>)
    qed
  qed
  show ?thesis
    by (rule exI [of _ ?os]) (use a b in \<open>simp\<close>)
qed

theorem normalization_of_valid_options_witness:
  "list_all valid_shape
     [PStr ''Yes'', PTuple [PStr ''b''], PTuple [PStr ''c'', PBool False],
      PTuple [PStr ''d'', PBool True, PInt 4]] \<and>
   (\<exists>os. init_options
            [PStr ''Yes'', PTuple [PStr ''b''], PTuple [PStr ''c'', PBool False],
             PTuple [PStr ''d'', PBool True, PInt 4]] = Inr os \<and>
         os ! 0 = (PStr ''Yes'', PBool True, PStr ''Yes'') \<and>
         os ! 1 = (PStr ''b'', PBool True, PStr ''b'') \<and>
         os ! 2 = (PStr ''c'', PBool False, PStr ''c'') \<and>
         os ! 3 = (PStr ''d'', PBool True, PInt 4) \<and>
         (\<exists>s t. Selector_init
                  [PStr ''Yes'', PTuple [PStr ''b''], PTuple [PStr ''c'', PBool False],
                   PTuple [PStr ''d'', PBool True, PInt 4]] 0 = (Inr s, t) \<and>
                options s = os))"
proof -
  let ?opts = "[PStr ''Yes'', PTuple [PStr ''b''], PTuple [PStr ''c'', PBool False],
      PTuple [PStr ''d'', PBool True, PInt 4]]"
  have h: "list_all valid_shape ?opts" by simp
  from normalization_of_valid_options [OF h, of 0] obtain os where
    os: "init_options ?opts = Inr os" and
    k: "\<forall>k<length ?opts.
          (\<forall>t. ?opts ! k = PStr t \<longrightarrow> os ! k = (PStr t, PBool True, PStr t)) \<and>
          (\<forall>l. ?opts ! k = PTuple [l] \<longrightarrow> os ! k = (l, PBool True, l)) \<and>
          (\<forall>l b. ?opts ! k = PTuple [l, b] \<longrightarrow> os ! k = (l, b, l)) \<and>
          (\<forall>l b v. ?opts ! k = PTuple [l, b, v] \<longrightarrow> os ! k = (l, b, v))" and
    c: "\<forall>s t. Selector_init ?opts 0 = (Inr s, t) \<longrightarrow> options s = os"
    by blast
  have "os ! 0 = (PStr ''Yes'', PBool True, PStr ''Yes'')" using k [rule_format, of 0] by simp
  moreover have "os ! 1 = (PStr ''b'', PBool True, PStr ''b'')" using k [rule_format, of 1] by simp
  moreover have "os ! 2 = (PStr ''c'', PBool False, PStr ''c'')" using k [rule_format, of 2] by simp
  moreover have "os ! 3 = (PStr ''d'', PBool True, PInt 4)" using k [rule_format, of 3] by simp
  moreover have "\<exists>s t. Selector_init ?opts 0 = (Inr s, t)"
    by (simp add: Selector_init_def init_options_def normalize_opt_def m_simps set_index_def
        py_getitem_def label_def)
  then have "\<exists>s t. Selector_init ?opts 0 = (Inr s, t) \<and> options s = os" using c by blast
  ultimately show ?thesis using h os by blast
qed

text \<open>
  Claim C2. When some raw option has an invalid shape (a bare element that is not a text,
  or a grouping of length 0 or more than 3), the constructor raises \<open>SelectorError\<close> with
  the first such option as its argument, having performed no effect; when every raw
  option has a valid shape, the constructor raises no \<open>SelectorError\<close>.
\<close>

theorem invalid_option_raises_SelectorError:
  "(\<forall>x. find (\<lambda>opt. \<not> valid_shape opt) opts = Some x \<longrightarrow>
       Selector_init opts idx = (Inl (SelectorError ''invalid option %r'' x), [])) \<and>
   (list_all valid_shape opts \<longrightarrow>
       (\<forall>msg x. fst (Selector_init opts idx) \<noteq> Inl (SelectorError msg x)))"
proof (intro conjI allI impI)
  fix x assume "find (\<lambda>opt. \<not> valid_shape opt) opts = Some x"
  then show "Selector_init opts idx = (Inl (SelectorError ''invalid option %r'' x), [])"
    by (simp add: Selector_init_def init_options_invalid bnd_lift_Inl)
next
  fix msg x assume "list_all valid_shape opts"
  then show "fst (Selector_init opts idx) \<noteq> Inl (SelectorError msg x)"
    by (simp add: Selector_init_def init_options_valid bnd_lift_Inr set_index_no_selector_error)
qed

theorem invalid_option_raises_SelectorError_witness:
  "find (\<lambda>opt. \<not> valid_shape opt) [PStr ''a'', PInt 3, PTuple []] = Some (PInt 3) \<and>
   Selector_init [PStr ''a'', PInt 3, PTuple []] 0 =
     (Inl (SelectorError ''invalid option %r'' (PInt 3)), []) \<and>
   find (\<lambda>opt. \<not> valid_shape opt) [PTuple [PStr ''a'', PBool True, PInt 1, PInt 2]] =
     Some (PTuple [PStr ''a'', PBool True, PInt 1, PInt 2]) \<and>
   Selector_init [PTuple [PStr ''a'', PBool True, PInt 1, PInt 2]] 0 =
     (Inl (SelectorError ''invalid option %r'' (PTuple [PStr ''a'', PBool True, PInt 1, PInt 2])), []) \<and>
   list_all valid_shape [PStr ''Yes'', PStr ''No''] \<and>
   fst (Selector_init [PStr ''Yes'', PStr ''No''] 0) \<noteq>
     Inl (SelectorError ''invalid option %r'' (PStr ''Yes''))"
proof -
  have a: "find (\<lambda>opt. \<not> valid_shape opt) [PStr ''a'', PInt 3, PTuple []] = Some (PInt 3)"
    by simp
  have b: "find (\<lambda>opt. \<not> valid_shape opt) [PTuple [PStr ''a'', PBool True, PInt 1, PInt 2]] =
     Some (PTuple [PStr ''a'', PBool True, PInt 1, PInt 2])"
    by simp
  have c: "list_all valid_shape [PStr ''Yes'', PStr ''No'']" by simp
  show ?thesis
    using a b c
      invalid_option_raises_SelectorError [of "[PStr ''a'', PInt 3, PTuple []]" 0]
      invalid_option_raises_SelectorError [of "[PTuple [PStr ''a'', PBool True, PInt 1, PInt 2]]" 0]
      invalid_option_raises_SelectorError [of "[PStr ''Yes'', PStr ''No'']" 0]
    by blast
qed

section \<open>The index setter\<close>

lemma index_setter_ok:
  assumes "0 \<le> i" and "i < int (length (options s))" and "label (options s ! nat i) = PStr l"
  shows "index_setter s i =
           (Inr (s\<lparr>button_text := prefix @ l, index := i\<rparr>),
            [Emit ''select'' (opt_value (options s ! nat i)), SetText (prefix @ l), StoreIndex i])"
proof -
  have g: "py_getitem (options s) i = Inr (options s ! nat i)"
    using assms(1,2) by (rule py_getitem_in_range)
  show ?thesis
    by (simp add: index_setter_def g m_simps set_index_ok [OF g assms(3)])
qed

text \<open>
  Claim C3. For a Selector and an index \<open>i\<close> with \<open>0 \<le> i < len(options)\<close> whose option
  has a text as its label, assigning \<open>index = i\<close> succeeds and performs exactly three
  effects, in this order: the signal \<open>select\<close> with the value of option \<open>i\<close>, the text of
  the button set to the prefix followed by the label of option \<open>i\<close>, and \<open>i\<close> stored.
  Afterwards \<open>value\<close> is the value of option \<open>i\<close>, the button shows the prefix followed
  by its label, and \<open>index\<close> is \<open>i\<close>.
\<close>

theorem index_setter_effects:
  assumes "0 \<le> i" and "i < int (length (options s))" and "label (options s ! nat i) = PStr l"
  shows "\<exists>s'. index_setter s i =
                 (Inr s', [Emit ''select'' (opt_value (options s ! nat i)),
                           SetText (prefix @ l), StoreIndex i]) \<and>
              value_getter s' = Inr (opt_value (options s ! nat i)) \<and>
              button_text s' = prefix @ l \<and>
              index_getter s' = i \<and>
              options s' = options s \<and>
              pop_up_widget s' = pop_up_widget s"
proof -
  let ?s' = "s\<lparr>button_text := prefix @ l, index := i\<rparr>"
  have "value_getter ?s' = Inr (opt_value (options s ! nat i))"
    using assms(1,2) by (simp add: value_getter_def py_getitem_in_range)
  then show ?thesis
    using index_setter_ok [OF assms] by (simp add: index_getter_def)
qed

theorem index_setter_effects_witness:
  "(0::int) \<le> 1 \<and>
   index_setter \<lparr>options = [(PStr ''Yes'', PBool True, PStr ''Yes''), (PStr ''No'', PBool True, PStr ''No'')],
       button_text = ''(+) Yes'', index = 0, pop_up_widget = None\<rparr> 1 =
     (Inr \<lparr>options = [(PStr ''Yes'', PBool True, PStr ''Yes''), (PStr ''No'', PBool True, PStr ''No'')],
       button_text = ''(+) No'', index = 1, pop_up_widget = None\<rparr>,
      [Emit ''select'' (PStr ''No''), SetText ''(+) No'', StoreIndex 1])"
  using index_setter_effects [of 1 "\<lparr>options = [(PStr ''Yes'', PBool True, PStr ''Yes''), (PStr ''No'', PBool True, PStr ''No'')],
       button_text = ''(+) Yes'', index = 0, pop_up_widget = None\<rparr>" "''No''"]
  by (auto simp add: label_def opt_value_def prefix_def index_getter_def)

section \<open>Geometry of the pop-up\<close>

lemma label_lengths_text:
  "map label os = map PStr ls \<Longrightarrow> label_lengths os = Inr (map length ls)"
proof (induction os arbitrary: ls)
  case Nil
  then show ?case by simp
next
  case (Cons opt os)
  then obtain l ls' where "ls = l # ls'" "label opt = PStr l" "map label os = map PStr ls'"
    by (cases ls) auto
  then show ?case using Cons.IH [of ls'] by simp
qed

lemma py_max_Max: "ns \<noteq> [] \<Longrightarrow> py_max ns = Inr (Max (set ns))"
proof (cases ns)
  case Nil
  assume "ns \<noteq> []"
  with Nil show ?thesis by simp
next
  case (Cons n ns')
  then show ?thesis using Max.set_eq_fold [of n ns'] by simp
qed

text \<open>
  Claim C4. For a Selector whose option list is not empty and whose labels are the texts
  \<open>ls\<close>, the geometry of the pop-up is: overlay width, the length of the longest label
  plus the length of the prefix plus 3; overlay height, the number of options plus 2;
  top, minus (current index plus 1); left, minus 1.
\<close>

theorem pop_up_geometry:
  assumes "options s \<noteq> []" and "map label (options s) = map PStr ls"
  shows "get_pop_up_parameters s =
           Inr \<lparr>left = - 1, top = - (index_getter s + 1),
                overlay_width = int (Max (set (map length ls))) + int (length prefix) + 3,
                overlay_height = int (length (options s)) + 2\<rparr>"
proof -
  have ll: "label_lengths (options s) = Inr (map length ls)"
    using assms(2) by (rule label_lengths_text)
  have "ls \<noteq> []" using assms by auto
  then have "py_max (map length ls) = Inr (Max (set (map length ls)))"
    by (simp add: py_max_Max)
  then show ?thesis by (simp add: get_pop_up_parameters_def ll)
qed

theorem pop_up_geometry_witness:
  "[(PStr ''Group'', PBool False, PStr ''Group''), (PStr ''A'', PBool True, PStr ''A'')] \<noteq> [] \<and>
   get_pop_up_parameters
     \<lparr>options = [(PStr ''Group'', PBool False, PStr ''Group''), (PStr ''A'', PBool True, PStr ''A'')],
      button_text = ''(+) A'', index = 1, pop_up_widget = None\<rparr> =
   Inr \<lparr>left = - 1, top = - 2, overlay_width = 12, overlay_height = 4\<rparr>"
  using pop_up_geometry [of
     "\<lparr>options = [(PStr ''Group'', PBool False, PStr ''Group''), (PStr ''A'', PBool True, PStr ''A'')],
      button_text = ''(+) A'', index = 1, pop_up_widget = None\<rparr>" "[''Group'', ''A'']"]
  by (simp add: label_def index_getter_def prefix_def)

section \<open>The pop-up dialog\<close>

text \<open>
  Claim C5. With a pop-up open, the key \<open>esc\<close> closes the pop-up, returns \<open>None\<close>, performs
  no effect (so no \<open>select\<close> signal is emitted), and leaves the index, the value, the
  text of the button and the options of the Selector as they were.
\<close>

theorem escape_closes_pop_up:
  assumes "pop_up_widget s = Some d"
  shows "\<exists>s'. PopUpSelectDialog_keypress super_keypress s sz ''esc'' = (Inr (s', PNone), []) \<and>
              pop_up_widget s' = None \<and>
              index_getter s' = index_getter s \<and>
              value_getter s' = value_getter s \<and>
              button_text s' = button_text s \<and>
              options s' = options s"
  by (simp add: PopUpSelectDialog_keypress_def close_pop_up_def m_simps index_getter_def
        value_getter_def)

theorem escape_closes_pop_up_witness:
  "pop_up_widget
     \<lparr>options = [(PStr ''Yes'', PBool True, PStr ''Yes''), (PStr ''No'', PBool True, PStr ''No'')],
      button_text = ''(+) Yes'', index = 0,
      pop_up_widget = Some \<lparr>group = [PopUpButton ''(+) Yes'' 0, PopUpButton ''( ) No'' 1],
                               focus = PopUpButton ''(+) Yes'' 0\<rparr>\<rparr> \<noteq> None \<and>
   PopUpSelectDialog_keypress (\<lambda>s sz key. (Inr (s, PStr key), []))
     \<lparr>options = [(PStr ''Yes'', PBool True, PStr ''Yes''), (PStr ''No'', PBool True, PStr ''No'')],
      button_text = ''(+) Yes'', index = 0,
      pop_up_widget = Some \<lparr>group = [PopUpButton ''(+) Yes'' 0, PopUpButton ''( ) No'' 1],
                               focus = PopUpButton ''(+) Yes'' 0\<rparr>\<rparr> () ''esc'' =
   (Inr (\<lparr>options = [(PStr ''Yes'', PBool True, PStr ''Yes''), (PStr ''No'', PBool True, PStr ''No'')],
          button_text = ''(+) Yes'', index = 0, pop_up_widget = None\<rparr>, PNone), [])"
proof -
  let ?d = "\<lparr>group = [PopUpButton ''(+) Yes'' 0, PopUpButton ''( ) No'' 1],
             focus = PopUpButton ''(+) Yes'' 0\<rparr>"
  let ?s = "\<lparr>options = [(PStr ''Yes'', PBool True, PStr ''Yes''), (PStr ''No'', PBool True, PStr ''No'')],
      button_text = ''(+) Yes'', index = 0, pop_up_widget = Some ?d\<rparr>"
  have h: "pop_up_widget ?s = Some ?d" by simp
  from escape_closes_pop_up [OF h, of "\<lambda>s sz key. (Inr (s, PStr key), [])" "()"]
  obtain s' where k: "PopUpSelectDialog_keypress (\<lambda>s sz key. (Inr (s, PStr key), [])) ?s () ''esc'' =
      (Inr (s', PNone), [])"
    and "pop_up_widget s' = None" "index_getter s' = index_getter ?s"
      "button_text s' = button_text ?s" "options s' = options ?s" by blast
  then have "s' = \<lparr>options = [(PStr ''Yes'', PBool True, PStr ''Yes''), (PStr ''No'', PBool True, PStr ''No'')],
          button_text = ''(+) Yes'', index = 0, pop_up_widget = None\<rparr>"
    by (cases s') (simp add: index_getter_def)
  with k show ?thesis by simp
qed

lemma make_group_rows:
  "make_group cur k os = Inr g \<Longrightarrow>
     length g = length os \<and>
     (\<forall>j<length os. \<exists>l. label (os ! j) = PStr l \<and>
        g ! j = (if py_truthy (selectable (os ! j))
                 then PopUpButton (states (k + int j = cur) @ l) (k + int j)
                 else TextRow (''    '' @ l)))"
proof (induction os arbitrary: k g)
  case Nil
  then show ?case by simp
next
  case (Cons opt os)
  from Cons.prems obtain l where l: "label opt = PStr l"
    by (cases "label opt") (auto split: if_splits)
  from Cons.prems l obtain rs where rs: "make_group cur (k + 1) os = Inr rs"
    and g: "g = (if py_truthy (selectable opt) then PopUpButton (states (k = cur) @ l) k
                 else TextRow (''    '' @ l)) # rs"
    by (auto split: if_splits sum.splits)
  note ih = Cons.IH [OF rs]
  show ?case
  proof (intro conjI allI impI)
    show "length g = length (opt # os)" using ih g by simp
  next
    fix j assume j: "j < length (opt # os)"
    show "\<exists>l. label ((opt # os) ! j) = PStr l \<and>
        g ! j = (if py_truthy (selectable ((opt # os) ! j))
                 then PopUpButton (states (k + int j = cur) @ l) (k + int j)
                 else TextRow (''    '' @ l))"
    proof (cases j)
      case 0
      then show ?thesis using l g by simp
    next
      case (Suc j')
      then have "j' < length os" using j by simp
      with ih obtain l' where a: "label (os ! j') = PStr l'"
        and b: "rs ! j' = (if py_truthy (selectable (os ! j'))
                 then PopUpButton (states (k + 1 + int j' = cur) @ l') (k + 1 + int j')
                 else TextRow (''    '' @ l'))" by blast
      have e: "k + 1 + int j' = k + int j" using Suc by simp
      from b have "rs ! j' = (if py_truthy (selectable (os ! j'))
                 then PopUpButton (states (k + int j = cur) @ l') (k + int j)
                 else TextRow (''    '' @ l'))" by (simp only: e)
      then have "g ! j = (if py_truthy (selectable ((opt # os) ! j))
                 then PopUpButton (states (k + int j = cur) @ l') (k + int j)
                 else TextRow (''    '' @ l'))" using g Suc by (simp only: nth_Cons_Suc)
      moreover have "label ((opt # os) ! j) = PStr l'" using a Suc by simp
      ultimately show ?thesis by blast
    qed
  qed
qed

lemma open_pop_up_Inr:
  assumes "open_pop_up s = (Inr s1, t1)"
  shows "\<exists>g r. make_group (index s) 0 (options s) = Inr g \<and>
               s1 = s\<lparr>pop_up_widget := Some \<lparr>group = g, focus = r\<rparr>\<rparr> \<and> t1 = []"
proof (cases "make_group (index s) 0 (options s)")
  case (Inl e)
  then show ?thesis using assms
    by (simp add: open_pop_up_def create_pop_up_def PopUpSelectDialog_init_def index_getter_def
          m_simps)
next
  case (Inr g)
  then show ?thesis using assms
    by (cases "py_getitem g (index s)")
       (auto simp add: open_pop_up_def create_pop_up_def PopUpSelectDialog_init_def
          index_getter_def m_simps)
qed

text \<open>
  Claim C6. When the pop-up of a Selector has been opened and option \<open>i\<close>, with
  \<open>0 \<le> i < len(options)\<close>, is selectable, row \<open>i\<close> of the dialog is a button whose click is
  connected with \<open>i\<close>. Clicking it performs the effects of the assignment \<open>index = i\<close>
  (one \<open>select\<close> signal with the value of option \<open>i\<close>, the text of the button, the index
  stored) and ends in the state that assignment ends in, with the pop-up closed: the
  index is \<open>i\<close>, the value is that of option \<open>i\<close>, the button shows the prefix and its
  label.
\<close>

theorem click_equals_index_assignment:
  assumes "open_pop_up s = (Inr s1, t1)"
    and "0 \<le> i" and "i < int (length (options s))"
    and "py_truthy (selectable (options s ! nat i))"
  shows "\<exists>d txt s2 l.
           pop_up_widget s1 = Some d \<and> group d ! nat i = PopUpButton txt i \<and>
           label (options s ! nat i) = PStr l \<and>
           index_setter s1 i =
             (Inr s2, [Emit ''select'' (opt_value (options s ! nat i)),
                       SetText (prefix @ l), StoreIndex i]) \<and>
           row_click s1 (group d ! nat i) =
             (Inr (s2\<lparr>pop_up_widget := None\<rparr>),
              [Emit ''select'' (opt_value (options s ! nat i)),
               SetText (prefix @ l), StoreIndex i]) \<and>
           index_getter s2 = i \<and>
           value_getter s2 = Inr (opt_value (options s ! nat i)) \<and>
           button_text s2 = prefix @ l"
proof -
  from open_pop_up_Inr [OF assms(1)] obtain g r where
    g: "make_group (index s) 0 (options s) = Inr g" and
    s1: "s1 = s\<lparr>pop_up_widget := Some \<lparr>group = g, focus = r\<rparr>\<rparr>" by blast
  have n: "nat i < length (options s)" using assms(2,3) by simp
  from make_group_rows [OF g] n assms(4) obtain l where
    l: "label (options s ! nat i) = PStr l" and
    row: "g ! nat i = PopUpButton (states (0 + int (nat i) = index s) @ l) (0 + int (nat i))"
    by fastforce
  have row': "g ! nat i = PopUpButton (states (i = index s) @ l) i"
    using row assms(2) by simp
  let ?s2 = "s1\<lparr>button_text := prefix @ l, index := i\<rparr>"
  let ?t = "[Emit ''select'' (opt_value (options s ! nat i)), SetText (prefix @ l), StoreIndex i]"
  have o1: "options s1 = options s" using s1 by simp
  have set: "index_setter s1 i = (Inr ?s2, ?t)"
    using index_setter_ok [of i s1 l] assms(2,3) l o1 by simp
  have clk: "row_click s1 (g ! nat i) = (Inr (?s2\<lparr>pop_up_widget := None\<rparr>), ?t)"
    by (simp add: row' click_def set close_pop_up_def m_simps)
  have v: "value_getter ?s2 = Inr (opt_value (options s ! nat i))"
    using assms(2,3) o1 by (simp add: value_getter_def py_getitem_in_range)
  show ?thesis
    apply (rule exI [of _ "\<lparr>group = g, focus = r\<rparr>"])
    apply (rule exI [of _ "states (i = index s) @ l"])
    apply (rule exI [of _ ?s2])
    apply (rule exI [of _ l])
    using s1 row' l set clk v by (simp add: index_getter_def)
qed

theorem click_equals_index_assignment_witness:
  "open_pop_up
     \<lparr>options = [(PStr ''Group'', PBool False, PStr ''Group''), (PStr ''A'', PBool True, PStr ''A''),
                 (PStr ''B'', PBool True, PStr ''B'')],
      button_text = ''(+) A'', index = 1, pop_up_widget = None\<rparr> =
     (Inr \<lparr>options = [(PStr ''Group'', PBool False, PStr ''Group''), (PStr ''A'', PBool True, PStr ''A''),
                 (PStr ''B'', PBool True, PStr ''B'')],
           button_text = ''(+) A'', index = 1,
           pop_up_widget = Some \<lparr>group = [TextRow ''    Group'', PopUpButton ''(+) A'' 1,
                                             PopUpButton ''( ) B'' 2],
                                    focus = PopUpButton ''(+) A'' 1\<rparr>\<rparr>, []) \<and>
   row_click
     \<lparr>options = [(PStr ''Group'', PBool False, PStr ''Group''), (PStr ''A'', PBool True, PStr ''A''),
                 (PStr ''B'', PBool True, PStr ''B'')],
      button_text = ''(+) A'', index = 1,
      pop_up_widget = Some \<lparr>group = [TextRow ''    Group'', PopUpButton ''(+) A'' 1,
                                        PopUpButton ''( ) B'' 2],
                               focus = PopUpButton ''(+) A'' 1\<rparr>\<rparr>
     (PopUpButton ''( ) B'' 2) =
     (Inr \<lparr>options = [(PStr ''Group'', PBool False, PStr ''Group''), (PStr ''A'', PBool True, PStr ''A''),
                 (PStr ''B'', PBool True, PStr ''B'')],
           button_text = ''(+) B'', index = 2, pop_up_widget = None\<rparr>,
      [Emit ''select'' (PStr ''B''), SetText ''(+) B'', StoreIndex 2])"
proof -
  let ?os = "[(PStr ''Group'', PBool False, PStr ''Group''), (PStr ''A'', PBool True, PStr ''A''),
                 (PStr ''B'', PBool True, PStr ''B'')]"
  let ?s = "\<lparr>options = ?os, button_text = ''(+) A'', index = 1, pop_up_widget = None\<rparr>"
  let ?d = "\<lparr>group = [TextRow ''    Group'', PopUpButton ''(+) A'' 1, PopUpButton ''( ) B'' 2],
             focus = PopUpButton ''(+) A'' 1\<rparr>"
  let ?s1 = "\<lparr>options = ?os, button_text = ''(+) A'', index = 1, pop_up_widget = Some ?d\<rparr>"
  have h: "open_pop_up ?s = (Inr ?s1, [])"
    by (simp add: open_pop_up_def create_pop_up_def PopUpSelectDialog_init_def index_getter_def
          m_simps selectable_def label_def states_def py_getitem_def)
  have i: "(2::int) < int (length (options ?s))" by simp
  have p: "py_truthy (selectable (options ?s ! nat 2))"
    by (simp add: selectable_def numeral_2_eq_2)
  from click_equals_index_assignment [OF h _ i p]
  obtain d bt s2 l where
    "pop_up_widget ?s1 = Some d" "group d ! nat 2 = PopUpButton bt 2"
    "label (options ?s ! nat 2) = PStr l"
    "index_setter ?s1 2 =
       (Inr s2, [Emit ''select'' (opt_value (options ?s ! nat 2)), SetText (prefix @ l), StoreIndex 2])"
    "row_click ?s1 (group d ! nat 2) =
       (Inr (s2\<lparr>pop_up_widget := None\<rparr>),
        [Emit ''select'' (opt_value (options ?s ! nat 2)), SetText (prefix @ l), StoreIndex 2])"
    by auto
  then have "row_click ?s1 (PopUpButton ''( ) B'' 2) =
     (Inr \<lparr>options = ?os, button_text = ''(+) B'', index = 2, pop_up_widget = None\<rparr>,
      [Emit ''select'' (PStr ''B''), SetText ''(+) B'', StoreIndex 2])"
    by (auto simp add: numeral_2_eq_2 label_def opt_value_def prefix_def index_setter_def
          set_index_def py_getitem_def m_simps)
  with h show ?thesis by simp
qed

section \<open>The initial index\<close>

text \<open>
  Claim C10. (as amended) The constructor reads \<open>options[index]\<close> with the indexing of
  lists, where a negative index counts from the end. When the raw options normalise to a
  list of length \<open>n\<close> and the initial index is below \<open>- n\<close> or at least \<open>n\<close> (any
  index when the list is empty), construction raises \<open>IndexError\<close>, not
  \<open>SelectorError\<close>, having performed no effect. Whatever the raw options and the index,
  construction emits no \<open>select\<close> signal.
\<close>

theorem construction_index_out_of_range:
  "(\<forall>os. init_options opts = Inr os \<longrightarrow>
          (idx < - int (length os) \<or> int (length os) \<le> idx) \<longrightarrow>
          Selector_init opts idx = (Inl IndexError, [])) \<and>
   (\<forall>v. Emit ''select'' v \<notin> set (snd (Selector_init opts idx)))"
proof (intro conjI allI impI)
  fix os assume a: "init_options opts = Inr os"
    and b: "idx < - int (length os) \<or> int (length os) \<le> idx"
  let ?s0 = "\<lparr>options = os, button_text = prefix, index = 0, pop_up_widget = None\<rparr>"
  have "py_getitem (options ?s0) idx = Inl IndexError"
    using b by (simp add: py_getitem_out_of_range)
  then have "set_index ?s0 idx = (Inl IndexError, [])" by (rule set_index_IndexError)
  then show "Selector_init opts idx = (Inl IndexError, [])"
    using a by (simp add: Selector_init_def m_simps)
next
  fix v
  show "Emit ''select'' v \<notin> set (snd (Selector_init opts idx))"
    by (cases "init_options opts") (simp_all add: Selector_init_def m_simps set_index_no_emit)
qed

theorem construction_index_out_of_range_witness:
  "init_options [PStr ''Yes'', PStr ''No''] =
     Inr [(PStr ''Yes'', PBool True, PStr ''Yes''), (PStr ''No'', PBool True, PStr ''No'')] \<and>
   Selector_init [PStr ''Yes'', PStr ''No''] 2 = (Inl IndexError, []) \<and>
   Selector_init [PStr ''Yes'', PStr ''No''] (- 3) = (Inl IndexError, []) \<and>
   init_options [] = Inr [] \<and>
   Selector_init [] 0 = (Inl IndexError, [])"
proof -
  have a: "init_options [PStr ''Yes'', PStr ''No''] =
     Inr [(PStr ''Yes'', PBool True, PStr ''Yes''), (PStr ''No'', PBool True, PStr ''No'')]"
    by (simp add: init_options_def normalize_opt_def)
  have b: "init_options [] = Inr []" by (simp add: init_options_def)
  show ?thesis
    using a b
      construction_index_out_of_range [of "[PStr ''Yes'', PStr ''No'']" 2]
      construction_index_out_of_range [of "[PStr ''Yes'', PStr ''No'']" "- 3"]
      construction_index_out_of_range [of "[]" 0]
    by simp
qed

text \<open>
  The claim C10 as first stated fails for a negative index: with the options \<open>Yes\<close> and
  \<open>No\<close> and the initial index \<open>- 1\<close>, which is outside \<open>0 \<le> index < 2\<close>, construction
  succeeds, shows the last option and stores \<open>- 1\<close>.
\<close>

theorem negative_index_counterexample:
  "Selector_init [PStr ''Yes'', PStr ''No''] (- 1) =
     (Inr \<lparr>options = [(PStr ''Yes'', PBool True, PStr ''Yes''), (PStr ''No'', PBool True, PStr ''No'')],
           button_text = ''(+) No'', index = - 1, pop_up_widget = None\<rparr>,
      [SetText ''(+) No'', StoreIndex (- 1)])"
  by (simp add: Selector_init_def init_options_def normalize_opt_def m_simps set_index_def
        py_getitem_def label_def prefix_def)

section \<open>The filters of the editors\<close>

lemma in_range_iff:
  "((of_char lo :: nat) \<le> of_char c \<and> (of_char c :: nat) \<le> of_char hi) =
     (c \<in> set (map char_of [of_char lo ..< Suc (of_char hi) :: nat]))"
proof
  assume "(of_char lo :: nat) \<le> of_char c \<and> (of_char c :: nat) \<le> of_char hi"
  then have "(of_char c :: nat) \<in> set [of_char lo ..< Suc (of_char hi)]"
    by (simp only: set_upt atLeastLessThan_iff less_Suc_eq_le)
  then have "char_of (of_char c :: nat) \<in> char_of ` set [of_char lo ..< Suc (of_char hi) :: nat]"
    by (rule imageI)
  then show "c \<in> set (map char_of [of_char lo ..< Suc (of_char hi) :: nat])" by simp
next
  assume "c \<in> set (map char_of [of_char lo ..< Suc (of_char hi) :: nat])"
  then obtain n :: nat where n: "c = char_of n" "of_char lo \<le> n" "n \<le> of_char hi"
    by (auto simp only: set_map set_upt atLeastLessThan_iff less_Suc_eq_le)
  have "n < 256" using n(3) nat_of_char_less_256 [of hi] by linarith
  then have "(of_char c :: nat) = n" using n(1) by (simp add: of_char_of)
  with n show "(of_char lo :: nat) \<le> of_char c \<and> (of_char c :: nat) \<le> of_char hi" by simp
qed

lemma lower_range: "map char_of [of_char CHR ''a'' ..< Suc (of_char CHR ''z'') :: nat] = lower_chars"
  unfolding lower_chars_def by code_simp

lemma upper_range: "map char_of [of_char CHR ''A'' ..< Suc (of_char CHR ''Z'') :: nat] = upper_chars"
  unfolding upper_chars_def by code_simp

lemma digit_range: "map char_of [of_char CHR ''0'' ..< Suc (of_char CHR ''9'') :: nat] = digit_chars"
  unfolding digit_chars_def by code_simp

lemma in_item_lower: "in_item c (Range CHR ''a'' CHR ''z'') = (c \<in> set lower_chars)"
  by (simp only: in_item.simps in_range_iff lower_range)

lemma in_item_upper: "in_item c (Range CHR ''A'' CHR ''Z'') = (c \<in> set upper_chars)"
  by (simp only: in_item.simps in_range_iff upper_range)

lemma in_item_digit: "in_item c (Range CHR ''0'' CHR ''9'') = (c \<in> set digit_chars)"
  by (simp only: in_item.simps in_range_iff digit_range)

lemmas in_item_ranges = in_item_lower in_item_upper in_item_digit

lemma in_class_realname:
  "in_class realname c = (c \<in> set (lower_chars @ upper_chars @ digit_chars @ ''_- ''))"
  by (simp only: in_class_def realname_def list_ex_Nil_iff list_ex_Cons_iff in_item_ranges in_item.simps(1)) auto

lemma in_class_email:
  "in_class email c = (c \<in> set (''-'' @ lower_chars @ upper_chars @ digit_chars @ ''_.@+=''))"
  by (simp only: in_class_def email_def list_ex_Nil_iff list_ex_Cons_iff in_item_ranges in_item.simps(1)) auto

lemma in_class_username_empty:
  "in_class username_empty c = (c \<in> set (lower_chars @ ''_''))"
  by (simp only: in_class_def username_empty_def list_ex_Nil_iff list_ex_Cons_iff in_item_ranges in_item.simps(1)) auto

lemma in_class_username_nonempty:
  "in_class username_nonempty c = (c \<in> set (lower_chars @ digit_chars @ ''_-''))"
  by (simp only: in_class_def username_nonempty_def list_ex_Nil_iff list_ex_Cons_iff in_item_ranges in_item.simps(1)) auto

lemma re_match_None:
  "(re_match cls key = None) = (\<not> (key \<noteq> [] \<and> in_class cls (hd key)))"
  by (cases key) simp_all

text \<open>
  Claim C7. For every key, \<open>RealnameEditor.keypress\<close> passes the key on to
  \<open>StringEditor.keypress\<close> when the key is not empty and its first character is a
  letter, a digit, an underscore, a hyphen or a space, and otherwise returns \<open>False\<close>
  and leaves the editor as it was. The test is made for every key, whatever its length.
\<close>

theorem realname_filter:
  "RealnameEditor_keypress edit_keypress s sz key =
     (if key \<noteq> [] \<and> hd key \<in> set (lower_chars @ upper_chars @ digit_chars @ ''_- '')
      then StringEditor_keypress edit_keypress s sz key
      else (s, PBool False))"
  by (simp only: RealnameEditor_keypress_def re_match_None in_class_realname) simp

theorem realname_filter_witness:
  "RealnameEditor_keypress (\<lambda>e sz k. (e\<lparr>edit_text := edit_text e @ k\<rparr>, PNone))
     \<lparr>edit_w = \<lparr>edit_text = ''Jo'', edit_pos = 2\<rparr>, error_msg = None\<rparr> () ''a'' =
     (\<lparr>edit_w = \<lparr>edit_text = ''Joa'', edit_pos = 2\<rparr>, error_msg = None\<rparr>, PNone) \<and>
   RealnameEditor_keypress (\<lambda>e sz k. (e\<lparr>edit_text := edit_text e @ k\<rparr>, PNone))
     \<lparr>edit_w = \<lparr>edit_text = ''Jo'', edit_pos = 2\<rparr>, error_msg = None\<rparr> () ''_'' =
     (\<lparr>edit_w = \<lparr>edit_text = ''Jo_'', edit_pos = 2\<rparr>, error_msg = None\<rparr>, PNone) \<and>
   RealnameEditor_keypress (\<lambda>e sz k. (e\<lparr>edit_text := edit_text e @ k\<rparr>, PNone))
     \<lparr>edit_w = \<lparr>edit_text = ''Jo'', edit_pos = 2\<rparr>, error_msg = None\<rparr> () '' '' =
     (\<lparr>edit_w = \<lparr>edit_text = ''Jo '', edit_pos = 2\<rparr>, error_msg = None\<rparr>, PNone) \<and>
   RealnameEditor_keypress (\<lambda>e sz k. (e\<lparr>edit_text := edit_text e @ k\<rparr>, PNone))
     \<lparr>edit_w = \<lparr>edit_text = ''Jo'', edit_pos = 2\<rparr>, error_msg = None\<rparr> () ''$'' =
     (\<lparr>edit_w = \<lparr>edit_text = ''Jo'', edit_pos = 2\<rparr>, error_msg = None\<rparr>, PBool False)"
  using
    realname_filter [of "\<lambda>e sz k. (e\<lparr>edit_text := edit_text e @ k\<rparr>, PNone)"
      "\<lparr>edit_w = \<lparr>edit_text = ''Jo'', edit_pos = 2\<rparr>, error_msg = None\<rparr>" "()" "''a''"]
    realname_filter [of "\<lambda>e sz k. (e\<lparr>edit_text := edit_text e @ k\<rparr>, PNone)"
      "\<lparr>edit_w = \<lparr>edit_text = ''Jo'', edit_pos = 2\<rparr>, error_msg = None\<rparr>" "()" "''_''"]
    realname_filter [of "\<lambda>e sz k. (e\<lparr>edit_text := edit_text e @ k\<rparr>, PNone)"
      "\<lparr>edit_w = \<lparr>edit_text = ''Jo'', edit_pos = 2\<rparr>, error_msg = None\<rparr>" "()" "'' ''"]
    realname_filter [of "\<lambda>e sz k. (e\<lparr>edit_text := edit_text e @ k\<rparr>, PNone)"
      "\<lparr>edit_w = \<lparr>edit_text = ''Jo'', edit_pos = 2\<rparr>, error_msg = None\<rparr>" "()" "''$''"]
  by (simp add: lower_chars_def upper_chars_def digit_chars_def StringEditor_keypress_def)

text \<open>
  Claim C8. \<open>UsernameEditor.keypress\<close> passes a key on when its first character is a
  lower-case letter or an underscore if the value of the editor is empty, and a
  lower-case letter, a digit, an underscore or a hyphen if it is not; otherwise it
  returns \<open>False\<close> and leaves the editor as it was.
\<close>

theorem username_filter:
  "UsernameEditor_keypress edit_keypress s sz key =
     (if key \<noteq> [] \<and>
         hd key \<in> set (if StringEditor_value s = [] then lower_chars @ ''_''
                        else lower_chars @ digit_chars @ ''_-'')
      then StringEditor_keypress edit_keypress s sz key
      else (s, PBool False))"
  by (simp add: UsernameEditor_keypress_def re_match_None in_class_username_empty
        in_class_username_nonempty Let_def)

theorem username_filter_witness:
  "UsernameEditor_keypress (\<lambda>e sz k. (e\<lparr>edit_text := edit_text e @ k\<rparr>, PNone))
     \<lparr>edit_w = \<lparr>edit_text = [], edit_pos = 0\<rparr>, error_msg = None\<rparr> () ''a'' =
     (\<lparr>edit_w = \<lparr>edit_text = ''a'', edit_pos = 0\<rparr>, error_msg = None\<rparr>, PNone) \<and>
   UsernameEditor_keypress (\<lambda>e sz k. (e\<lparr>edit_text := edit_text e @ k\<rparr>, PNone))
     \<lparr>edit_w = \<lparr>edit_text = [], edit_pos = 0\<rparr>, error_msg = None\<rparr> () ''_'' =
     (\<lparr>edit_w = \<lparr>edit_text = ''_'', edit_pos = 0\<rparr>, error_msg = None\<rparr>, PNone) \<and>
   UsernameEditor_keypress (\<lambda>e sz k. (e\<lparr>edit_text := edit_text e @ k\<rparr>, PNone))
     \<lparr>edit_w = \<lparr>edit_text = [], edit_pos = 0\<rparr>, error_msg = None\<rparr> () ''1'' =
     (\<lparr>edit_w = \<lparr>edit_text = [], edit_pos = 0\<rparr>, error_msg = None\<rparr>, PBool False) \<and>
   UsernameEditor_keypress (\<lambda>e sz k. (e\<lparr>edit_text := edit_text e @ k\<rparr>, PNone))
     \<lparr>edit_w = \<lparr>edit_text = [], edit_pos = 0\<rparr>, error_msg = None\<rparr> () ''-'' =
     (\<lparr>edit_w = \<lparr>edit_text = [], edit_pos = 0\<rparr>, error_msg = None\<rparr>, PBool False) \<and>
   UsernameEditor_keypress (\<lambda>e sz k. (e\<lparr>edit_text := edit_text e @ k\<rparr>, PNone))
     \<lparr>edit_w = \<lparr>edit_text = ''u'', edit_pos = 1\<rparr>, error_msg = None\<rparr> () ''1'' =
     (\<lparr>edit_w = \<lparr>edit_text = ''u1'', edit_pos = 1\<rparr>, error_msg = None\<rparr>, PNone) \<and>
   UsernameEditor_keypress (\<lambda>e sz k. (e\<lparr>edit_text := edit_text e @ k\<rparr>, PNone))
     \<lparr>edit_w = \<lparr>edit_text = ''u'', edit_pos = 1\<rparr>, error_msg = None\<rparr> () ''-'' =
     (\<lparr>edit_w = \<lparr>edit_text = ''u-'', edit_pos = 1\<rparr>, error_msg = None\<rparr>, PNone)"
  using
    username_filter [of "\<lambda>e sz k. (e\<lparr>edit_text := edit_text e @ k\<rparr>, PNone)"
      "\<lparr>edit_w = \<lparr>edit_text = [], edit_pos = 0\<rparr>, error_msg = None\<rparr>" "()"]
    username_filter [of "\<lambda>e sz k. (e\<lparr>edit_text := edit_text e @ k\<rparr>, PNone)"
      "\<lparr>edit_w = \<lparr>edit_text = ''u'', edit_pos = 1\<rparr>, error_msg = None\<rparr>" "()"]
  by (simp add: lower_chars_def digit_chars_def StringEditor_keypress_def StringEditor_value_def
        get_edit_text_def)

text \<open>
  Claim C9. The filters of the three editors look at the first character of the key
  only: a key \<open>c # rest\<close> is passed on exactly when \<open>c\<close> is in the allowed class,
  whatever \<open>rest\<close> is, and the empty key is swallowed. So \<open>backspace\<close>, \<open>enter\<close> and
  \<open>up\<close> are passed on by the real-name and the e-mail editor, and the user-name editor
  with an empty value swallows every key whose first character is neither a lower-case
  letter nor an underscore.
\<close>

theorem filters_test_first_character_only:
  "RealnameEditor_keypress edit_keypress s sz (c # rest) =
     (if c \<in> set (lower_chars @ upper_chars @ digit_chars @ ''_- '')
      then StringEditor_keypress edit_keypress s sz (c # rest) else (s, PBool False)) \<and>
   EmailEditor_keypress edit_keypress s sz (c # rest) =
     (if c \<in> set (''-'' @ lower_chars @ upper_chars @ digit_chars @ ''_.@+='')
      then StringEditor_keypress edit_keypress s sz (c # rest) else (s, PBool False)) \<and>
   UsernameEditor_keypress edit_keypress s sz (c # rest) =
     (if c \<in> set (if StringEditor_value s = [] then lower_chars @ ''_''
                   else lower_chars @ digit_chars @ ''_-'')
      then StringEditor_keypress edit_keypress s sz (c # rest) else (s, PBool False)) \<and>
   RealnameEditor_keypress edit_keypress s sz [] = (s, PBool False) \<and>
   EmailEditor_keypress edit_keypress s sz [] = (s, PBool False) \<and>
   UsernameEditor_keypress edit_keypress s sz [] = (s, PBool False) \<and>
   (\<forall>key \<in> {''backspace'', ''enter'', ''up''}.
      RealnameEditor_keypress edit_keypress s sz key = StringEditor_keypress edit_keypress s sz key \<and>
      EmailEditor_keypress edit_keypress s sz key = StringEditor_keypress edit_keypress s sz key) \<and>
   (StringEditor_value s = [] \<and> c \<notin> set (lower_chars @ ''_'') \<longrightarrow>
      UsernameEditor_keypress edit_keypress s sz (c # rest) = (s, PBool False))"
proof -
  have r: "\<And>key. RealnameEditor_keypress edit_keypress s sz key =
     (if key \<noteq> [] \<and> hd key \<in> set (lower_chars @ upper_chars @ digit_chars @ ''_- '')
      then StringEditor_keypress edit_keypress s sz key else (s, PBool False))"
    by (simp only: RealnameEditor_keypress_def re_match_None in_class_realname) simp
  have e: "\<And>key. EmailEditor_keypress edit_keypress s sz key =
     (if key \<noteq> [] \<and> hd key \<in> set (''-'' @ lower_chars @ upper_chars @ digit_chars @ ''_.@+='')
      then StringEditor_keypress edit_keypress s sz key else (s, PBool False))"
    by (simp only: EmailEditor_keypress_def re_match_None in_class_email) simp
  have u: "\<And>key. UsernameEditor_keypress edit_keypress s sz key =
     (if key \<noteq> [] \<and>
         hd key \<in> set (if StringEditor_value s = [] then lower_chars @ ''_''
                        else lower_chars @ digit_chars @ ''_-'')
      then StringEditor_keypress edit_keypress s sz key else (s, PBool False))"
    by (simp add: UsernameEditor_keypress_def re_match_None in_class_username_empty
        in_class_username_nonempty Let_def)
  have b: "CHR ''b'' \<in> set lower_chars" "CHR ''e'' \<in> set lower_chars" "CHR ''u'' \<in> set lower_chars"
    by (simp_all add: lower_chars_def)
  show ?thesis
    by (simp add: r e u b)
qed

theorem filters_test_first_character_only_witness:
  "RealnameEditor_keypress (\<lambda>e sz k. (e\<lparr>edit_text := edit_text e @ k\<rparr>, PStr k))
     \<lparr>edit_w = \<lparr>edit_text = [], edit_pos = 0\<rparr>, error_msg = None\<rparr> () ''backspace'' =
     (\<lparr>edit_w = \<lparr>edit_text = ''backspace'', edit_pos = 0\<rparr>, error_msg = None\<rparr>, PStr ''backspace'') \<and>
   EmailEditor_keypress (\<lambda>e sz k. (e\<lparr>edit_text := edit_text e @ k\<rparr>, PStr k))
     \<lparr>edit_w = \<lparr>edit_text = [], edit_pos = 0\<rparr>, error_msg = None\<rparr> () ''up'' =
     (\<lparr>edit_w = \<lparr>edit_text = ''up'', edit_pos = 0\<rparr>, error_msg = None\<rparr>, PStr ''up'') \<and>
   StringEditor_value \<lparr>edit_w = \<lparr>edit_text = [], edit_pos = 0\<rparr>, error_msg = None\<rparr> = [] \<and>
   CHR ''1'' \<notin> set (lower_chars @ ''_'') \<and>
   UsernameEditor_keypress (\<lambda>e sz k. (e\<lparr>edit_text := edit_text e @ k\<rparr>, PStr k))
     \<lparr>edit_w = \<lparr>edit_text = [], edit_pos = 0\<rparr>, error_msg = None\<rparr> () ''1abc'' =
     (\<lparr>edit_w = \<lparr>edit_text = [], edit_pos = 0\<rparr>, error_msg = None\<rparr>, PBool False)"
proof -
  let ?k = "\<lambda>e sz k. (e\<lparr>edit_text := edit_text e @ k\<rparr>, PStr k)"
  let ?s = "\<lparr>edit_w = \<lparr>edit_text = [], edit_pos = 0\<rparr>, error_msg = None\<rparr>"
  have h: "StringEditor_value ?s = [] \<and> CHR ''1'' \<notin> set (lower_chars @ ''_'')"
    by (simp add: StringEditor_value_def get_edit_text_def lower_chars_def)
  note t = filters_test_first_character_only [of ?k ?s "()" "CHR ''1''" "''abc''"]
  have a: "RealnameEditor_keypress ?k ?s () ''backspace'' = StringEditor_keypress ?k ?s () ''backspace''"
    using t by simp
  have b: "EmailEditor_keypress ?k ?s () ''up'' = StringEditor_keypress ?k ?s () ''up''"
    using t by simp
  have c: "UsernameEditor_keypress ?k ?s () ''1abc'' = (?s, PBool False)"
    using t h by blast
  show ?thesis using a b c h by (simp add: StringEditor_keypress_def)
qed

end
